theory Spec2Isabelle
  imports Main "HOL-Library.Extended_Nat" "HOL-Library.Multiset" "HOL-Library.AList"
begin

section \<open>Python strings\<close>

text \<open>
  A Python \<^verbatim>\<open>str\<close> is a sequence of code points. The model takes HOL's \<^typ>\<open>char\<close>,
  that is the code points 0 to 255, and gives each the classification that
  \<^verbatim>\<open>str.isalnum\<close>, \<^verbatim>\<open>str.isdigit\<close>, \<^verbatim>\<open>str.isdecimal\<close> and \<^verbatim>\<open>str.isspace\<close>
  give it. Beyond the ASCII letters and digits this covers the Latin-1 letters, the
  superscript digits (178, 179, 185: digits for \<^verbatim>\<open>isdigit\<close>, not decimal), the vulgar
  fractions (188 to 190: numeric, hence alphanumeric) and the blanks 133 and 160.
\<close>

definition code_point :: "char \<Rightarrow> nat" where
  "code_point c = of_char c"



definition isalnum :: "char \<Rightarrow> bool" where
  "isalnum c = (let n = code_point c in
     (48 \<le> n \<and> n \<le> 57) \<or> (65 \<le> n \<and> n \<le> 90) \<or> (97 \<le> n \<and> n \<le> 122) \<or>
     n = 170 \<or> n = 178 \<or> n = 179 \<or> n = 181 \<or> n = 185 \<or> n = 186 \<or>
     (188 \<le> n \<and> n \<le> 190) \<or> (192 \<le> n \<and> n \<le> 214) \<or>
     (216 \<le> n \<and> n \<le> 246) \<or> (248 \<le> n \<and> n \<le> 255))"

definition isspace :: "char \<Rightarrow> bool" where
  "isspace c = (let n = code_point c in
     (9 \<le> n \<and> n \<le> 13) \<or> (28 \<le> n \<and> n \<le> 32) \<or> n = 133 \<or> n = 160)"

text \<open>\<^verbatim>\<open>s.strip()\<close>: blanks are removed from both ends.\<close>

definition strip :: "string \<Rightarrow> string" where
  "strip s = rev (dropWhile isspace (rev (dropWhile isspace s)))"

definition startswith :: "string \<Rightarrow> string \<Rightarrow> bool" where
  "startswith s prefix = (take (length prefix) s = prefix)"

definition endswith :: "string \<Rightarrow> string \<Rightarrow> bool" where
  "endswith s suffix = (length suffix \<le> length s \<and> drop (length s - length suffix) s = suffix)"

definition quote :: string where
  "quote = [CHR 0x27]"

text \<open>
  Exceptions. \<open>InvalidFile\<close> stands for whatever the spreadsheet library raises on a
  file it cannot read as a workbook, \<open>LibraryError\<close> for an exception raised inside a
  library constructor.
\<close>

datatype exn =
    ValueError
  | AttributeError
  | FileNotFoundError
  | FileExistsError
  | IsADirectoryError
  | NotADirectoryError
  | PermissionError
  | InvalidFile
  | LibraryError string



section \<open>Results and printed lines\<close>

text \<open>
  An f-string is kept as its pieces: literal text, a number, or the text of an
  exception (\<^verbatim>\<open>str(e)\<close>, which the library decides). Every exposed operation returns a
  dict with a success flag and a message or a payload.
\<close>

datatype piece = Txt string | Num nat | Exc exn

type_synonym message = "piece list"

datatype 'a result = Success 'a | Failure message

fun is_failure :: "'a result \<Rightarrow> bool" where
  "is_failure (Failure m) = True"
| "is_failure (Success x) = False"

section \<open>Workbooks\<close>

text \<open>
  A cell value as the library hands it out: empty, text, a number, a truth value or
  a \<^verbatim>\<open>datetime\<close> (a point on a totally ordered time line). A coordinate is a column
  number and a row number, both counted from 1: \<^verbatim>\<open>"B2"\<close> is \<open>(2, 2)\<close>.
\<close>

datatype cell_value = VNone | VStr string | VNum int | VBool bool | VDate int

type_synonym attr = string

record cell_style =
  font :: attr
  border :: attr
  fill :: attr
  number_format :: attr
  alignment :: attr

record cell =
  val :: cell_value
  cstyle :: "cell_style option"

type_synonym coord = "nat \<times> nat"

definition col_A :: nat where "col_A = 1"
definition col_B :: nat where "col_B = 2"
definition col_C :: nat where "col_C = 3"
definition col_D :: nat where "col_D = 4"

record worksheet =
  title :: string
  tab_color :: "string option"
  cells :: "(coord \<times> cell) list"

record workbook =
  sheets :: "worksheet list"
  active :: nat

definition blank :: cell where
  "blank = \<lparr>val = VNone, cstyle = None\<rparr>"

definition default_style :: cell_style where
  "default_style = \<lparr>font = [], border = [], fill = [], number_format = [], alignment = []\<rparr>"

text \<open>\<^verbatim>\<open>sheet[coordinate]\<close>: a cell that was never stored reads as a blank one.\<close>

definition cell_at :: "worksheet \<Rightarrow> coord \<Rightarrow> cell" where
  "cell_at sheet c = (case map_of (cells sheet) c of Some x \<Rightarrow> x | None \<Rightarrow> blank)"

definition put_cell :: "coord \<Rightarrow> cell \<Rightarrow> worksheet \<Rightarrow> worksheet" where
  "put_cell c x sheet = sheet\<lparr>cells := AList.update c x (cells sheet)\<rparr>"

text \<open>\<^verbatim>\<open>sheet[coordinate] = v\<close>: the value is replaced, the style stays.\<close>

definition set_value :: "coord \<Rightarrow> cell_value \<Rightarrow> worksheet \<Rightarrow> worksheet" where
  "set_value c v sheet = put_cell c ((cell_at sheet c)\<lparr>val := v\<rparr>) sheet"

definition sheetnames :: "workbook \<Rightarrow> string list" where
  "sheetnames wb = map title (sheets wb)"

text \<open>\<^verbatim>\<open>workbook[name]\<close>: the first sheet of that title.\<close>

definition get_sheet :: "workbook \<Rightarrow> string \<Rightarrow> worksheet option" where
  "get_sheet wb name = find (\<lambda>s. title s = name) (sheets wb)"

fun update_first :: "('a \<Rightarrow> bool) \<Rightarrow> ('a \<Rightarrow> 'a) \<Rightarrow> 'a list \<Rightarrow> 'a list" where
  "update_first P f [] = []"
| "update_first P f (x # xs) = (if P x then f x # xs else x # update_first P f xs)"

definition update_sheet :: "string \<Rightarrow> (worksheet \<Rightarrow> worksheet) \<Rightarrow> workbook \<Rightarrow> workbook" where
  "update_sheet name f wb = wb\<lparr>sheets := update_first (\<lambda>s. title s = name) f (sheets wb)\<rparr>"

definition active_sheet :: "workbook \<Rightarrow> worksheet option" where
  "active_sheet wb = (if active wb < length (sheets wb) then Some (sheets wb ! active wb) else None)"

text \<open>\<^verbatim>\<open>openpyxl.Workbook()\<close>: one empty sheet, which is the active one.\<close>

definition Workbook :: workbook where
  "Workbook = \<lparr>sheets = [\<lparr>title = ''Sheet'', tab_color = None, cells = []\<rparr>], active = 0\<rparr>"

text \<open>
  \<^verbatim>\<open>sheet.iter_rows()\<close>: nothing for a sheet without cells, otherwise every coordinate
  of the rectangle from \<open>(1, 1)\<close> to the largest stored column and row, row by row.
\<close>

definition max_list :: "nat list \<Rightarrow> nat" where
  "max_list ns = foldr max ns 0"

definition max_column :: "worksheet \<Rightarrow> nat" where
  "max_column sheet = max_list (map (fst \<circ> fst) (cells sheet))"

definition max_row :: "worksheet \<Rightarrow> nat" where
  "max_row sheet = max_list (map (snd \<circ> fst) (cells sheet))"

definition iter_rows :: "worksheet \<Rightarrow> coord list" where
  "iter_rows sheet =
     (if cells sheet = [] then []
      else concat (map (\<lambda>r. map (\<lambda>c. (c, r)) [1..<Suc (max_column sheet)])
                       [1..<Suc (max_row sheet)]))"

section \<open>The file system\<close>

text \<open>
  The store is keyed by the path string the program builds (POSIX conventions); two
  spellings of one path are two keys. A file is a directory, a workbook that
  \<^verbatim>\<open>load_workbook\<close> reads, or anything else. \<open>locked\<close> lists the paths that cannot be
  written; \<open>stdout\<close> is what \<^verbatim>\<open>print\<close> has written.
\<close>

type_synonym path = string

datatype node = Dir | Blob | Workbook_file workbook

record world =
  files :: "(path \<times> node) list"
  locked :: "path list"
  stdout :: "message list"

definition print :: "message \<Rightarrow> world \<Rightarrow> world" where
  "print line w = w\<lparr>stdout := stdout w @ [line]\<rparr>"

definition path_join :: "path \<Rightarrow> path \<Rightarrow> path" where
  "path_join a b =
     (if startswith b ''/'' then b
      else if a = [] \<or> endswith a ''/'' then a @ b
      else a @ ''/'' @ b)"

definition exists :: "path \<Rightarrow> world \<Rightarrow> bool" where
  "exists p w = (map_of (files w) p \<noteq> None)"

definition makedirs :: "path \<Rightarrow> world \<Rightarrow> exn + world" where
  "makedirs d w =
     (case map_of (files w) d of
        Some n \<Rightarrow> (case n of Dir \<Rightarrow> Inr w | Blob \<Rightarrow> Inl FileExistsError
                    | Workbook_file wb \<Rightarrow> Inl FileExistsError)
      | None \<Rightarrow> if d \<in> set (locked w) then Inl PermissionError
                else Inr (w\<lparr>files := files w @ [(d, Dir)]\<rparr>))"

definition entry_name :: "path \<Rightarrow> path \<Rightarrow> string option" where
  "entry_name d p =
     (if startswith p (d @ ''/'') then
        (let n = drop (length d + 1) p
         in if n \<noteq> [] \<and> CHR ''/'' \<notin> set n then Some n else None)
      else None)"

definition listdir :: "path \<Rightarrow> world \<Rightarrow> exn + string list" where
  "listdir d w =
     (case map_of (files w) d of
        None \<Rightarrow> Inl FileNotFoundError
      | Some n \<Rightarrow> (case n of Dir \<Rightarrow> Inr (List.map_filter (entry_name d) (map fst (files w)))
                    | Blob \<Rightarrow> Inl NotADirectoryError
                    | Workbook_file wb \<Rightarrow> Inl NotADirectoryError))"

definition load_workbook :: "path \<Rightarrow> world \<Rightarrow> exn + workbook" where
  "load_workbook p w =
     (case map_of (files w) p of
        None \<Rightarrow> Inl FileNotFoundError
      | Some n \<Rightarrow> (case n of Dir \<Rightarrow> Inl IsADirectoryError | Blob \<Rightarrow> Inl InvalidFile
                    | Workbook_file wb \<Rightarrow> Inr wb))"

text \<open>\<^verbatim>\<open>workbook.save(path)\<close>: the file at the path is replaced as a whole.\<close>

definition save :: "workbook \<Rightarrow> path \<Rightarrow> world \<Rightarrow> exn + world" where
  "save wb p w =
     (if p \<in> set (locked w) then Inl PermissionError
      else case map_of (files w) p of
        None \<Rightarrow> Inr (w\<lparr>files := AList.update p (Workbook_file wb) (files w)\<rparr>)
      | Some n \<Rightarrow> (case n of Dir \<Rightarrow> Inl IsADirectoryError
                    | Blob \<Rightarrow> Inr (w\<lparr>files := AList.update p (Workbook_file wb) (files w)\<rparr>)
                    | Workbook_file old \<Rightarrow>
                        Inr (w\<lparr>files := AList.update p (Workbook_file wb) (files w)\<rparr>)))"

section \<open>Projects\<close>

subsection \<open>\<^verbatim>\<open>create_excel_file\<close>\<close>

definition safe_char :: "char \<Rightarrow> bool" where
  "safe_char c = (isalnum c \<or> c \<in> set [CHR '' '', CHR ''.'', CHR ''_''])"

definition safe_project_name :: "string \<Rightarrow> string" where
  "safe_project_name project_name =
     (let s = strip (filter safe_char project_name)
      in if s = [] then ''untitled_project'' else s)"

definition create_excel_file :: "string \<Rightarrow> world \<Rightarrow> message result \<times> world" where
  "create_excel_file project_name w =
     (let projects_dir = ''projects''
      in case makedirs projects_dir w of
           Inl e \<Rightarrow> (Failure [Txt ''Failed to create project: '', Exc e],
                     print [Txt ''Error creating Excel file: '', Exc e] w)
         | Inr w1 \<Rightarrow>
             (let file_name = safe_project_name project_name @ ''.xlsx'';
                  file_path = path_join projects_dir file_name;
                  workbook = Workbook;
                  workbook = workbook\<lparr>sheets :=
                     (sheets workbook)[active workbook :=
                        (sheets workbook ! active workbook)\<lparr>title := ''Sheet1''\<rparr>]\<rparr>
              in case save workbook file_path w1 of
                   Inl e \<Rightarrow> (Failure [Txt ''Failed to create project: '', Exc e],
                             print [Txt ''Error creating Excel file: '', Exc e] w1)
                 | Inr w2 \<Rightarrow>
                     (Success [Txt ''Project '', Txt quote, Txt file_name, Txt quote,
                               Txt '' created successfully in '', Txt quote, Txt projects_dir,
                               Txt quote, Txt '' folder!''],
                      print [Txt ''Successfully created '', Txt file_path] w2)))"

subsection \<open>\<^verbatim>\<open>get_po_sheets\<close>\<close>



subsection \<open>\<^verbatim>\<open>create_po\<close>\<close>

text \<open>
  What the spreadsheet library decides is a parameter: the title a new sheet gets
  (the library rejects some titles and renames others), and the style constructors,
  each of which may raise. \<open>NumberFormat\<close> is the assignment to
  \<^verbatim>\<open>new_cell.number_format\<close>, which also goes through the library.
\<close>

record openpyxl =
  sheet_title :: "string list \<Rightarrow> string \<Rightarrow> exn + string"
  Font :: "attr \<Rightarrow> exn + attr"
  Border :: "attr \<Rightarrow> exn + attr"
  PatternFill :: "attr \<Rightarrow> exn + attr"
  NumberFormat :: "attr \<Rightarrow> exn + attr"
  Alignment :: "attr \<Rightarrow> exn + attr"

text \<open>\<^verbatim>\<open>project_wb.create_sheet(po_name)\<close>: a new empty sheet, placed last.\<close>

definition create_sheet :: "openpyxl \<Rightarrow> string \<Rightarrow> workbook \<Rightarrow> exn + worksheet" where
  "create_sheet lib name wb =
     (case sheet_title lib (sheetnames wb) name of
        Inl e \<Rightarrow> Inl e
      | Inr t \<Rightarrow> Inr \<lparr>title = t, tab_color = None, cells = []\<rparr>)"

definition set_style :: "(cell_style \<Rightarrow> cell_style) \<Rightarrow> cell \<Rightarrow> cell" where
  "set_style f c =
     c\<lparr>cstyle := Some (f (case cstyle c of None \<Rightarrow> default_style | Some s \<Rightarrow> s))\<rparr>"

text \<open>
  The body of the inner \<^verbatim>\<open>try\<close>: five assignments in order. The first one that raises
  ends the block, and what was assigned before it stays on the new cell.
\<close>

definition copy_style :: "openpyxl \<Rightarrow> cell_style \<Rightarrow> cell \<Rightarrow> exn option \<times> cell" where
  "copy_style lib src new_cell =
     (case Font lib (font src) of
        Inl e \<Rightarrow> (Some e, new_cell)
      | Inr f \<Rightarrow>
     (let c1 = set_style (\<lambda>s. s\<lparr>font := f\<rparr>) new_cell in
      case Border lib (border src) of
        Inl e \<Rightarrow> (Some e, c1)
      | Inr b \<Rightarrow>
     (let c2 = set_style (\<lambda>s. s\<lparr>border := b\<rparr>) c1 in
      case PatternFill lib (fill src) of
        Inl e \<Rightarrow> (Some e, c2)
      | Inr p \<Rightarrow>
     (let c3 = set_style (\<lambda>s. s\<lparr>fill := p\<rparr>) c2 in
      case NumberFormat lib (number_format src) of
        Inl e \<Rightarrow> (Some e, c3)
      | Inr n \<Rightarrow>
     (let c4 = set_style (\<lambda>s. s\<lparr>number_format := n\<rparr>) c3 in
      case Alignment lib (alignment src) of
        Inl e \<Rightarrow> (Some e, c4)
      | Inr a \<Rightarrow> (None, set_style (\<lambda>s. s\<lparr>alignment := a\<rparr>) c4))))))"

text \<open>One pass of the loop body, on the new sheet and the lines printed so far.\<close>

definition copy_cell ::
  "openpyxl \<Rightarrow> worksheet \<Rightarrow> coord \<Rightarrow> worksheet \<times> message list \<Rightarrow> worksheet \<times> message list" where
  "copy_cell lib template_sheet coordinate st =
     (let new_sheet = fst st; out = snd st;
          cell = cell_at template_sheet coordinate;
          new_cell = (cell_at new_sheet coordinate)\<lparr>val := val cell\<rparr>
      in case cstyle cell of
           None \<Rightarrow> (put_cell coordinate new_cell new_sheet, out)
         | Some style \<Rightarrow>
             (case copy_style lib style new_cell of
                (None, c) \<Rightarrow> (put_cell coordinate c new_sheet, out)
              | (Some style_error, c) \<Rightarrow>
                  (put_cell coordinate c new_sheet,
                   out @ [[Txt ''Warning: Could not copy some styles: '', Exc style_error]])))"

definition copy_cells ::
  "openpyxl \<Rightarrow> worksheet \<Rightarrow> worksheet \<Rightarrow> worksheet \<times> message list" where
  "copy_cells lib template_sheet new_sheet =
     fold (copy_cell lib template_sheet) (iter_rows template_sheet) (new_sheet, [])"

definition create_po ::
  "openpyxl \<Rightarrow> string \<Rightarrow> string \<Rightarrow> world \<Rightarrow> message result \<times> world" where
  "create_po lib project_name po_name w =
     (let file_path = path_join ''projects'' project_name;
          template_path = ''Final PO Format.xlsx'';
          error = (\<lambda>e w'. (Failure [Exc e], print [Txt ''Error creating PO: '', Exc e] w'))
      in if \<not> exists file_path w
         then (Failure [Txt ''Project '', Txt quote, Txt project_name, Txt quote,
                        Txt '' not found.''], w)
         else if \<not> exists template_path w
         then (Failure [Txt ''PO template not found.''], w)
         else case load_workbook file_path w of
           Inl e \<Rightarrow> error e w
         | Inr project_wb \<Rightarrow>
         (case load_workbook template_path w of
           Inl e \<Rightarrow> error e w
         | Inr template_wb \<Rightarrow>
         if po_name \<in> set (sheetnames project_wb)
         then (Failure [Txt ''PO '', Txt quote, Txt po_name, Txt quote,
                        Txt '' already exists.''], w)
         else case create_sheet lib po_name project_wb of
           Inl e \<Rightarrow> error e w
         | Inr new_sheet \<Rightarrow>
         (case active_sheet template_wb of
           None \<Rightarrow> error AttributeError w
         | Some template_sheet \<Rightarrow>
         (let copied = copy_cells lib template_sheet new_sheet;
              w1 = w\<lparr>stdout := stdout w @ snd copied\<rparr>;
              project_wb = project_wb\<lparr>sheets := sheets project_wb @ [fst copied]\<rparr>
          in case save project_wb file_path w1 of
               Inl e \<Rightarrow> error e w1
             | Inr w2 \<Rightarrow>
                 (Success [Txt ''PO '', Txt quote, Txt po_name, Txt quote,
                           Txt '' created successfully.''], w2)))))"

subsection \<open>\<^verbatim>\<open>delete_po\<close>\<close>

definition delete_po :: "string \<Rightarrow> string \<Rightarrow> world \<Rightarrow> message result \<times> world" where
  "delete_po project_name po_name w =
     (let file_path = path_join ''projects'' project_name;
          error = (\<lambda>e. (Failure [Exc e], print [Txt ''Error deleting PO: '', Exc e] w))
      in if \<not> exists file_path w
         then (Failure [Txt ''Project '', Txt quote, Txt project_name, Txt quote,
                        Txt '' not found.''], w)
         else case load_workbook file_path w of
           Inl e \<Rightarrow> error e
         | Inr workbook \<Rightarrow>
             if po_name \<notin> set (sheetnames workbook)
             then (Failure [Txt ''PO '', Txt quote, Txt po_name, Txt quote,
                            Txt '' not found.''], w)
             else (let workbook = update_sheet po_name
                                    (\<lambda>sheet. sheet\<lparr>tab_color := Some ''FFFF0000''\<rparr>) workbook
                   in case save workbook file_path w of
                        Inl e \<Rightarrow> error e
                      | Inr w' \<Rightarrow>
                          (Success [Txt ''PO '', Txt quote, Txt po_name, Txt quote,
                                    Txt '' marked as deleted.''], w')))"

subsection \<open>\<^verbatim>\<open>get_vendor_details\<close>\<close>

record vendor_details =
  name :: string
  address :: cell_value
  contact :: cell_value
  email :: cell_value

text \<open>Python's truth test, and \<^verbatim>\<open>v or ""\<close>.\<close>

fun truthy :: "cell_value \<Rightarrow> bool" where
  "truthy VNone = False"
| "truthy (VStr s) = (s \<noteq> [])"
| "truthy (VNum n) = (n \<noteq> 0)"
| "truthy (VBool b) = b"
| "truthy (VDate d) = True"

definition or_empty :: "cell_value \<Rightarrow> cell_value" where
  "or_empty v = (if truthy v then v else VStr [])"

text \<open>
  The body of the innermost \<^verbatim>\<open>if\<close> chain for one sheet, on the pair of
  \<^verbatim>\<open>latest_date\<close> and \<^verbatim>\<open>vendor_details\<close>.
\<close>

definition visit_sheet ::
  "string \<Rightarrow> worksheet \<Rightarrow> int option \<times> vendor_details \<Rightarrow> int option \<times> vendor_details" where
  "visit_sheet vendor_name sheet_obj st =
     (if val (cell_at sheet_obj (col_B, 2)) = VStr vendor_name then
        (case val (cell_at sheet_obj (col_B, 3)) of
           VDate po_date \<Rightarrow>
             (if (case fst st of None \<Rightarrow> True | Some latest_date \<Rightarrow> po_date > latest_date)
              then (Some po_date,
                    (snd st)\<lparr>address := or_empty (val (cell_at sheet_obj (col_B, 4))),
                             contact := or_empty (val (cell_at sheet_obj (col_B, 5))),
                             email := or_empty (val (cell_at sheet_obj (col_B, 6)))\<rparr>)
              else st)
         | VNone \<Rightarrow> st | VStr s \<Rightarrow> st | VNum n \<Rightarrow> st | VBool b \<Rightarrow> st)
      else st)"

definition visit_workbook ::
  "string \<Rightarrow> workbook \<Rightarrow> int option \<times> vendor_details \<Rightarrow> int option \<times> vendor_details" where
  "visit_workbook vendor_name workbook st =
     fold (\<lambda>sheet st.
             if startswith sheet ''PO'' then
               (case get_sheet workbook sheet of
                  Some sheet_obj \<Rightarrow> visit_sheet vendor_name sheet_obj st
                | None \<Rightarrow> st)
             else st)
          (sheetnames workbook) st"

fun visit_files ::
  "string \<Rightarrow> string list \<Rightarrow> world \<Rightarrow> int option \<times> vendor_details
     \<Rightarrow> exn + int option \<times> vendor_details" where
  "visit_files vendor_name [] w st = Inr st"
| "visit_files vendor_name (file_name # rest) w st =
     (if endswith file_name ''.xlsx'' then
        (case load_workbook (path_join ''projects'' file_name) w of
           Inl e \<Rightarrow> Inl e
         | Inr workbook \<Rightarrow>
             visit_files vendor_name rest w (visit_workbook vendor_name workbook st))
      else visit_files vendor_name rest w st)"

definition get_vendor_details :: "string \<Rightarrow> world \<Rightarrow> vendor_details result \<times> world" where
  "get_vendor_details vendor_name w =
     (let vendor_details = \<lparr>name = vendor_name, address = VStr [], contact = VStr [],
                             email = VStr []\<rparr>;
          projects_dir = ''projects'';
          error = (\<lambda>e. (Failure [Exc e], print [Txt ''Error getting vendor details: '', Exc e] w))
      in if \<not> exists projects_dir w then (Success vendor_details, w)
         else case listdir projects_dir w of
           Inl e \<Rightarrow> error e
         | Inr file_names \<Rightarrow>
             (case visit_files vendor_name file_names w (None, vendor_details) of
                Inl e \<Rightarrow> error e
              | Inr st \<Rightarrow> (Success (snd st), w)))"

subsection \<open>\<^verbatim>\<open>save_po_data\<close>\<close>

text \<open>
  \<^verbatim>\<open>po_data\<close> in the shape the form sends it: every key the function reads is
  present and every value is one a cell takes.
\<close>

record po_vendor =
  v_name :: cell_value
  v_address :: cell_value
  v_contact :: cell_value
  v_email :: cell_value

record po_delivery =
  d_date :: cell_value
  d_instructions :: cell_value

record po_item =
  i_name :: cell_value
  i_quantity :: cell_value
  i_unit_price :: cell_value
  i_description :: cell_value

record po_data =
  vendor :: po_vendor
  delivery :: po_delivery
  items :: "po_item list"
  terms :: cell_value

fun write_items :: "po_item list \<Rightarrow> nat \<Rightarrow> worksheet \<Rightarrow> worksheet" where
  "write_items [] row sheet = sheet"
| "write_items (item # rest) row sheet =
     write_items rest (row + 1)
       (set_value (col_D, row) (i_description item)
         (set_value (col_C, row) (i_unit_price item)
           (set_value (col_B, row) (i_quantity item)
             (set_value (col_A, row) (i_name item) sheet))))"

definition write_po_data :: "po_data \<Rightarrow> worksheet \<Rightarrow> worksheet" where
  "write_po_data po_data sheet =
     (let sheet = set_value (col_B, 2) (v_name (vendor po_data)) sheet;
          sheet = set_value (col_B, 4) (v_address (vendor po_data)) sheet;
          sheet = set_value (col_B, 5) (v_contact (vendor po_data)) sheet;
          sheet = set_value (col_B, 6) (v_email (vendor po_data)) sheet;
          sheet = set_value (col_B, 3) (d_date (delivery po_data)) sheet;
          sheet = set_value (col_B, 7) (d_instructions (delivery po_data)) sheet;
          sheet = write_items (items po_data) 10 sheet
      in set_value (col_B, 8) (terms po_data) sheet)"

definition save_po_data ::
  "string \<Rightarrow> string \<Rightarrow> po_data \<Rightarrow> world \<Rightarrow> message result \<times> world" where
  "save_po_data project_name po_name po_data w =
     (let file_path = path_join ''projects'' project_name;
          error = (\<lambda>e. (Failure [Exc e], print [Txt ''Error saving PO data: '', Exc e] w))
      in if \<not> exists file_path w
         then (Failure [Txt ''Project '', Txt quote, Txt project_name, Txt quote,
                        Txt '' not found.''], w)
         else case load_workbook file_path w of
           Inl e \<Rightarrow> error e
         | Inr workbook \<Rightarrow>
             if po_name \<notin> set (sheetnames workbook)
             then (Failure [Txt ''PO '', Txt quote, Txt po_name, Txt quote,
                            Txt '' not found.''], w)
             else (let workbook = update_sheet po_name (write_po_data po_data) workbook
                   in case save workbook file_path w of
                        Inl e \<Rightarrow> error e
                      | Inr w' \<Rightarrow> (Success [Txt ''PO data saved successfully.''], w')))"

section \<open>The sheet order as the specification words it\<close>



section \<open>Example states\<close>

definition sheet_named :: "string \<Rightarrow> worksheet" where
  "sheet_named t = \<lparr>title = t, tab_color = None, cells = []\<rparr>"

definition listing_workbook :: workbook where
  "listing_workbook = \<lparr>sheets = map sheet_named [''PO10'', ''PO2'', ''Misc''], active = 0\<rparr>"



text \<open>A library that accepts every title and every style.\<close>

definition plain_lib :: openpyxl where
  "plain_lib = \<lparr>sheet_title = (\<lambda>names t. Inr t), Font = Inr, Border = Inr,
                 PatternFill = Inr, NumberFormat = Inr, Alignment = Inr\<rparr>"

definition template_workbook :: workbook where
  "template_workbook =
     \<lparr>sheets = [\<lparr>title = ''Template'', tab_color = None,
                  cells = [((1, 1), \<lparr>val = VStr ''PURCHASE ORDER'', cstyle = None\<rparr>)]\<rparr>],
      active = 0\<rparr>"

definition no_template_world :: world where
  "no_template_world = \<lparr>files = [(''projects'', Dir),
                               (''projects/job.xlsx'', Workbook_file listing_workbook)],
                        locked = [], stdout = []\<rparr>"

definition template_world :: world where
  "template_world = \<lparr>files = [(''projects'', Dir),
                               (''projects/job.xlsx'', Workbook_file listing_workbook),
                               (''Final PO Format.xlsx'', Workbook_file template_workbook)],
                     locked = [], stdout = []\<rparr>"

definition deletion_world :: world where
  "deletion_world =
     \<lparr>files = [(''projects'', Dir),
                (''projects/job.xlsx'',
                 Workbook_file
                   \<lparr>sheets = [\<lparr>title = ''PO1'', tab_color = None,
                                cells = [((2, 2), \<lparr>val = VStr ''Acme'', cstyle = None\<rparr>)]\<rparr>,
                               \<lparr>title = ''PO2'', tab_color = None,
                                cells = [((2, 2), \<lparr>val = VStr ''Bolt'', cstyle = None\<rparr>)]\<rparr>],
                    active = 0\<rparr>)],
      locked = [], stdout = []\<rparr>"

section \<open>The cells a save writes, as the specification words it\<close>

text \<open>
  The cells \<^verbatim>\<open>save_po_data\<close> is said to write, with the value each gets: the seven
  fixed cells of column B, and columns A to D of the rows 10 to 10 + n - 1 for a list
  of n items. Every other coordinate has none.
\<close>

fun item_field :: "nat \<Rightarrow> po_item \<Rightarrow> cell_value" where
  "item_field col item =
     (if col = col_A then i_name item
      else if col = col_B then i_quantity item
      else if col = col_C then i_unit_price item
      else i_description item)"

definition written_value :: "po_data \<Rightarrow> coord \<Rightarrow> cell_value option" where
  "written_value po_data c =
     (if c = (col_B, 2) then Some (v_name (vendor po_data))
      else if c = (col_B, 4) then Some (v_address (vendor po_data))
      else if c = (col_B, 5) then Some (v_contact (vendor po_data))
      else if c = (col_B, 6) then Some (v_email (vendor po_data))
      else if c = (col_B, 3) then Some (d_date (delivery po_data))
      else if c = (col_B, 7) then Some (d_instructions (delivery po_data))
      else if c = (col_B, 8) then Some (terms po_data)
      else if col_A \<le> fst c \<and> fst c \<le> col_D \<and> 10 \<le> snd c
              \<and> snd c < 10 + length (items po_data)
      then Some (item_field (fst c) (items po_data ! (snd c - 10)))
      else None)"

text \<open>Example orders.\<close>

definition item_of :: "string \<Rightarrow> int \<Rightarrow> po_item" where
  "item_of n q = \<lparr>i_name = VStr n, i_quantity = VNum q, i_unit_price = VNum 5,
                  i_description = VStr ''each''\<rparr>"

definition order_of :: "po_item list \<Rightarrow> po_data" where
  "order_of its =
     \<lparr>vendor = \<lparr>v_name = VStr ''Acme'', v_address = VStr ''1 Main St'',
                 v_contact = VStr ''555'', v_email = VStr ''a@acme''\<rparr>,
      delivery = \<lparr>d_date = VStr ''2024-05-01'', d_instructions = VStr ''dock 2''\<rparr>,
      items = its, terms = VStr ''net 30''\<rparr>"

text \<open>States for project creation: nothing on disk, and a project file that is in the way.\<close>

text \<open>The workbook \<^verbatim>\<open>create_excel_file\<close> writes.\<close>

definition fresh_workbook :: workbook where
  "fresh_workbook = \<lparr>sheets = [\<lparr>title = ''Sheet1'', tab_color = None, cells = []\<rparr>], active = 0\<rparr>"

definition empty_world :: world where
  "empty_world = \<lparr>files = [], locked = [], stdout = []\<rparr>"

definition occupied_world :: world where
  "occupied_world = \<lparr>files = [(''projects'', Dir),
                                (''projects/My Job.xlsx'', Workbook_file listing_workbook)],
                      locked = [], stdout = []\<rparr>"

section \<open>Project names\<close>

lemma isspace_space: "isspace (CHR '' '')"
  by (simp add: isspace_def code_point_def)

lemma isalnum_range: "isalnum c \<Longrightarrow> 48 \<le> code_point c \<and> code_point c \<noteq> 133 \<and> code_point c \<noteq> 160"
  by (auto simp: isalnum_def Let_def)

lemma isspace_range: "isspace c \<Longrightarrow> code_point c \<le> 32 \<or> code_point c = 133 \<or> code_point c = 160"
  by (auto simp: isspace_def Let_def)

lemma isspace_safe_char: "safe_char c \<Longrightarrow> isspace c \<longleftrightarrow> c = CHR '' ''"
proof
  assume s: "safe_char c" and b: "isspace c"
  from s consider "isalnum c" | "c = CHR '' ''" | "c = CHR ''.''" | "c = CHR ''_''"
    by (auto simp: safe_char_def)
  then show "c = CHR '' ''"
  proof cases
    case 1
    with b have False
      using isalnum_range[of c] isspace_range[of c] by auto
    then show ?thesis ..
  next
    case 2 then show ?thesis .
  next
    case 3 with b show ?thesis by (simp add: isspace_def code_point_def)
  next
    case 4 with b show ?thesis by (simp add: isspace_def code_point_def)
  qed
next
  assume "safe_char c" "c = CHR '' ''"
  then show "isspace c" by (simp add: isspace_space)
qed

lemma strip_decompose:
  "xs = takeWhile P xs @ rev (dropWhile P (rev (dropWhile P xs))) @ rev (takeWhile P (rev (dropWhile P xs)))"
proof -
  define ys where "ys = dropWhile P xs"
  have "rev (rev ys) = rev (takeWhile P (rev ys) @ dropWhile P (rev ys))"
    by (simp only: takeWhile_dropWhile_id)
  then have a: "ys = rev (dropWhile P (rev ys)) @ rev (takeWhile P (rev ys))"
    by (simp only: rev_rev_ident rev_append)
  have b: "xs = takeWhile P xs @ ys"
    unfolding ys_def by (simp only: takeWhile_dropWhile_id)
  have "xs = takeWhile P xs @ rev (dropWhile P (rev ys)) @ rev (takeWhile P (rev ys))"
    using b by (simp only: a[symmetric])
  then show ?thesis unfolding ys_def .
qed

lemma dropWhile_all: "\<forall>c\<in>set xs. P c \<Longrightarrow> dropWhile P xs = []"
  by (induction xs) auto

lemma takeWhile_eq_replicate: "\<exists>l. takeWhile (\<lambda>c. c = a) xs = replicate l a"
proof (induction xs)
  case Nil
  then show ?case by simp
next
  case (Cons x xs)
  then obtain l where l: "takeWhile (\<lambda>c. c = a) xs = replicate l a" by blast
  show ?case
  proof (cases "x = a")
    case True
    with l have "takeWhile (\<lambda>c. c = a) (x # xs) = replicate (Suc l) a" by simp
    then show ?thesis by blast
  next
    case False
    then have "takeWhile (\<lambda>c. c = a) (x # xs) = replicate 0 a" by simp
    then show ?thesis by blast
  qed
qed

lemma strip_no_blank_ends:
  "strip xs = [] \<or> (\<not> isspace (hd (strip xs)) \<and> \<not> isspace (last (strip xs)))"
proof (cases "strip xs = []")
  case True then show ?thesis by simp
next
  case False
  define ys where "ys = dropWhile isspace xs"
  define zs where "zs = dropWhile isspace (rev ys)"
  have s: "strip xs = rev zs" by (simp add: strip_def ys_def zs_def)
  have z: "zs \<noteq> []" using False s by simp
  have hz: "\<not> isspace (hd zs)" using z unfolding zs_def by (rule hd_dropWhile)
  have y: "ys \<noteq> []"
  proof
    assume "ys = []"
    then have "zs = []" unfolding zs_def by simp
    with z show False ..
  qed
  have hy: "\<not> isspace (hd ys)" using y unfolding ys_def by (rule hd_dropWhile)
  have "rev ys = takeWhile isspace (rev ys) @ zs"
    unfolding zs_def by (simp only: takeWhile_dropWhile_id)
  then have "last (rev ys) = last (takeWhile isspace (rev ys) @ zs)" by (rule arg_cong)
  also have "\<dots> = last zs" using z by (rule last_appendR)
  finally have "last zs = hd ys" using y by (simp add: last_rev)
  then have "hd (strip xs) = hd ys" using z s by (simp add: hd_rev)
  moreover have "last (strip xs) = hd zs" using z s by (simp add: last_rev)
  ultimately show ?thesis using hy hz by simp
qed

lemma dropWhile_safe:
  "\<forall>c\<in>set xs. safe_char c \<Longrightarrow> dropWhile isspace xs = dropWhile (\<lambda>c. c = CHR '' '') xs"
  by (induction xs) (simp_all add: isspace_safe_char)

lemma safe_decompose:
  assumes "\<forall>c\<in>set xs. safe_char c"
  shows "\<exists>l r. xs = replicate l (CHR '' '') @ strip xs @ replicate r (CHR '' '')"
proof -
  let ?sp = "\<lambda>c. c = CHR '' ''"
  have d: "dropWhile isspace xs = dropWhile ?sp xs" using assms by (rule dropWhile_safe)
  have s2: "\<forall>c\<in>set (rev (dropWhile ?sp xs)). safe_char c"
    using assms by (auto dest: set_dropWhileD)
  have st: "strip xs = rev (dropWhile ?sp (rev (dropWhile ?sp xs)))"
    unfolding strip_def d using dropWhile_safe[OF s2] by simp
  have e: "xs = takeWhile ?sp xs @ strip xs @ rev (takeWhile ?sp (rev (dropWhile ?sp xs)))"
    unfolding st by (rule strip_decompose)
  obtain l where l: "takeWhile ?sp xs = replicate l (CHR '' '')"
    using takeWhile_eq_replicate[of "CHR '' ''" xs] by blast
  obtain r where "takeWhile ?sp (rev (dropWhile ?sp xs)) = replicate r (CHR '' '')"
    using takeWhile_eq_replicate[of "CHR '' ''" "rev (dropWhile ?sp xs)"] by blast
  then have r: "rev (takeWhile ?sp (rev (dropWhile ?sp xs))) = replicate r (CHR '' '')"
    by simp
  have "xs = replicate l (CHR '' '') @ strip xs @ replicate r (CHR '' '')"
    using e by (simp only: l r)
  then show ?thesis by blast
qed


text \<open>
  C3, as stated: the sanitized name is exactly the characters of the input that are
  alphanumeric, space, period or underscore. It is not: \<^verbatim>\<open>.strip()\<close> then removes
  the blanks at both ends, so of \<^verbatim>\<open>" a"\<close> only \<^verbatim>\<open>"a"\<close> is left.
\<close>

theorem safe_project_name_exact_counterexample:
  "filter safe_char '' a'' = '' a'' \<and> safe_project_name '' a'' = ''a''"
  by (simp add: safe_project_name_def strip_def safe_char_def isalnum_def isspace_def
      code_point_def)

text \<open>
  C3, amended: the characters that are alphanumeric, space, period or underscore are
  kept in their order and all others dropped; of the kept text the spaces at both ends
  are then removed, and what is left is the name, or \<^verbatim>\<open>untitled_project\<close> when nothing
  is left.
\<close>

theorem safe_project_name_keeps:
  "\<exists>l r s. filter safe_char project_name = replicate l (CHR '' '') @ s @ replicate r (CHR '' '')
     \<and> (s = [] \<or> (hd s \<noteq> CHR '' '' \<and> last s \<noteq> CHR '' ''))
     \<and> safe_project_name project_name = (if s = [] then ''untitled_project'' else s)"
proof -
  let ?xs = "filter safe_char project_name"
  have "\<forall>c\<in>set ?xs. safe_char c" by simp
  from safe_decompose[OF this] obtain l r where
    e: "?xs = replicate l (CHR '' '') @ strip ?xs @ replicate r (CHR '' '')" by blast
  have "strip ?xs = [] \<or> (hd (strip ?xs) \<noteq> CHR '' '' \<and> last (strip ?xs) \<noteq> CHR '' '')"
    using strip_no_blank_ends[of ?xs] isspace_space by auto
  moreover have "safe_project_name project_name = (if strip ?xs = [] then ''untitled_project'' else strip ?xs)"
    by (simp add: safe_project_name_def Let_def)
  ultimately show ?thesis using e by blast
qed

theorem safe_project_name_keeps_witness:
  "(\<exists>l r s. filter safe_char '' a.b_c! '' = replicate l (CHR '' '') @ s @ replicate r (CHR '' '')
      \<and> (s = [] \<or> (hd s \<noteq> CHR '' '' \<and> last s \<noteq> CHR '' ''))
      \<and> safe_project_name '' a.b_c! '' = (if s = [] then ''untitled_project'' else s))
   \<and> safe_project_name '' a.b_c! '' = ''a.b_c''
   \<and> safe_project_name ''?!'' = ''untitled_project''"
  using safe_project_name_keeps [of "'' a.b_c! ''"]
  by (simp add: safe_project_name_def strip_def safe_char_def isalnum_def isspace_def
      code_point_def)

text \<open>
  C10: the name is never empty and never starts or ends with a space; a project name
  made of blanks only, or whose valid characters are all spaces, gets the fallback
  name \<^verbatim>\<open>untitled_project\<close>.
\<close>

theorem safe_project_name_never_blank:
  "safe_project_name project_name \<noteq> []
   \<and> hd (safe_project_name project_name) \<noteq> CHR '' ''
   \<and> last (safe_project_name project_name) \<noteq> CHR '' ''
   \<and> ((\<forall>c\<in>set project_name. isspace c) \<longrightarrow> safe_project_name project_name = ''untitled_project'')
   \<and> ((\<forall>c\<in>set project_name. safe_char c \<longrightarrow> c = CHR '' '')
         \<longrightarrow> safe_project_name project_name = ''untitled_project'')"
proof -
  let ?xs = "filter safe_char project_name"
  have ends: "strip ?xs = [] \<or> (hd (strip ?xs) \<noteq> CHR '' '' \<and> last (strip ?xs) \<noteq> CHR '' '')"
    using strip_no_blank_ends[of ?xs] isspace_space by auto
  have all_sp: "strip ?xs = []" if "\<forall>c\<in>set project_name. safe_char c \<longrightarrow> c = CHR '' ''"
  proof -
    have "\<forall>c\<in>set ?xs. isspace c" using that isspace_space by auto
    then have "dropWhile isspace ?xs = []" by (rule dropWhile_all)
    then have "strip ?xs = rev (dropWhile isspace (rev []))"
      unfolding strip_def by (simp only:)
    then show ?thesis by simp
  qed
  have ws: "\<forall>c\<in>set project_name. safe_char c \<longrightarrow> c = CHR '' ''" if "\<forall>c\<in>set project_name. isspace c"
    using that isspace_safe_char by blast
  show ?thesis
    using ends all_sp ws by (auto simp: safe_project_name_def Let_def)
qed

theorem safe_project_name_never_blank_witness:
  "list_all isspace ''   '' \<and> safe_project_name ''   '' = ''untitled_project''
   \<and> filter safe_char '' ?! '' = ''  ''
   \<and> safe_project_name '' ?! '' = ''untitled_project''
   \<and> safe_project_name '' a b '' \<noteq> []
   \<and> hd (safe_project_name '' a b '') \<noteq> CHR '' ''
   \<and> last (safe_project_name '' a b '') \<noteq> CHR '' ''"
proof -
  have a: "\<forall>c\<in>set ''   ''. isspace c"
    by (simp add: isspace_def code_point_def)
  have b: "\<forall>c\<in>set '' ?! ''. safe_char c \<longrightarrow> c = CHR '' ''"
    by (simp add: safe_char_def isalnum_def code_point_def)
  have c: "list_all isspace ''   ''"
    by (simp add: isspace_def code_point_def)
  have d: "filter safe_char '' ?! '' = ''  ''"
    by (simp add: safe_char_def isalnum_def code_point_def)
  show ?thesis
    using a b c d safe_project_name_never_blank [of "''   ''"]
      safe_project_name_never_blank [of "'' ?! ''"]
      safe_project_name_never_blank [of "'' a b ''"]
    by blast
qed

section \<open>Listing the sheets\<close>




lemma load_exists: "load_workbook p w = Inr wb \<Longrightarrow> exists p w"
  by (auto simp: load_workbook_def exists_def split: option.splits)





section \<open>Creating a purchase order: the refusals\<close>

lemma load_not_exists: "\<not> exists p w \<Longrightarrow> load_workbook p w = Inl FileNotFoundError"
  by (simp add: load_workbook_def exists_def)

lemma files_print: "files (print m w) = files w"
  by (simp add: print_def)

lemma save_files_cases:
  "save wb p w = Inr w' \<Longrightarrow> files w' = AList.update p (Workbook_file wb) (files w)"
  by (auto simp: save_def split: if_splits option.splits node.splits)

lemma create_po_success_exists:
  assumes "fst (create_po lib project_name po_name w) = Success m"
  shows "exists (path_join ''projects'' project_name) w \<and> exists ''Final PO Format.xlsx'' w"
  using assms
  by (auto simp: create_po_def Let_def split: if_splits sum.splits option.splits)

lemma create_po_failure_keeps_files:
  assumes "is_failure (fst (create_po lib project_name po_name w))"
  shows "files (snd (create_po lib project_name po_name w)) = files w"
  using assms
  by (auto simp: create_po_def Let_def files_print split: if_splits sum.splits option.splits)

lemmas fs_ev = path_join_def startswith_def endswith_def exists_def load_workbook_def
  save_def print_def sheetnames_def sheet_named_def

lemmas po_ev = create_po_def create_sheet_def active_sheet_def copy_cells_def copy_cell_def
  copy_style_def set_style_def iter_rows_def max_column_def max_row_def max_list_def
  cell_at_def put_cell_def blank_def default_style_def plain_lib_def

text \<open>
  C8: \<^verbatim>\<open>create_po\<close> returns a failure result with a message, and leaves the state as
  it was, when the project file does not exist, and when the template
  \<^verbatim>\<open>Final PO Format.xlsx\<close> does not exist; whenever it succeeds or changes a file,
  both files exist. (It returns a result on every input: the model is a total function,
  every exception being a branch that returns a failure.)
\<close>

theorem create_po_missing_files:
  "(\<not> exists (path_join ''projects'' project_name) w \<longrightarrow>
      create_po lib project_name po_name w =
        (Failure [Txt ''Project '', Txt quote, Txt project_name, Txt quote, Txt '' not found.''], w))
   \<and> (exists (path_join ''projects'' project_name) w \<and> \<not> exists ''Final PO Format.xlsx'' w \<longrightarrow>
      create_po lib project_name po_name w = (Failure [Txt ''PO template not found.''], w))
   \<and> ((\<exists>m. fst (create_po lib project_name po_name w) = Success m)
        \<or> files (snd (create_po lib project_name po_name w)) \<noteq> files w \<longrightarrow>
      exists (path_join ''projects'' project_name) w \<and> exists ''Final PO Format.xlsx'' w)"
proof (intro conjI impI)
  assume "\<not> exists (path_join ''projects'' project_name) w"
  then show "create_po lib project_name po_name w =
        (Failure [Txt ''Project '', Txt quote, Txt project_name, Txt quote, Txt '' not found.''], w)"
    by (simp add: create_po_def Let_def)
next
  assume "exists (path_join ''projects'' project_name) w \<and> \<not> exists ''Final PO Format.xlsx'' w"
  then show "create_po lib project_name po_name w = (Failure [Txt ''PO template not found.''], w)"
    by (simp add: create_po_def Let_def)
next
  assume a: "(\<exists>m. fst (create_po lib project_name po_name w) = Success m)
        \<or> files (snd (create_po lib project_name po_name w)) \<noteq> files w"
  have "\<exists>m. fst (create_po lib project_name po_name w) = Success m"
  proof (cases "fst (create_po lib project_name po_name w)")
    case (Success m) then show ?thesis by blast
  next
    case (Failure m)
    then have "is_failure (fst (create_po lib project_name po_name w))" by simp
    then have "files (snd (create_po lib project_name po_name w)) = files w"
      by (rule create_po_failure_keeps_files)
    with a show ?thesis by blast
  qed
  then obtain m where "fst (create_po lib project_name po_name w) = Success m" ..
  then have b: "exists (path_join ''projects'' project_name) w \<and> exists ''Final PO Format.xlsx'' w"
    by (rule create_po_success_exists)
  from b show "exists (path_join ''projects'' project_name) w" ..
  from b show "exists ''Final PO Format.xlsx'' w" ..
qed

theorem create_po_missing_files_witness:
  "create_po plain_lib ''none.xlsx'' ''PO7'' template_world =
     (Failure [Txt ''Project '', Txt quote, Txt ''none.xlsx'', Txt quote, Txt '' not found.''],
      template_world)
   \<and> create_po plain_lib ''job.xlsx'' ''PO7'' no_template_world =
     (Failure [Txt ''PO template not found.''], no_template_world)
   \<and> fst (create_po plain_lib ''job.xlsx'' ''PO7'' template_world) =
       Success [Txt ''PO '', Txt quote, Txt ''PO7'', Txt quote, Txt '' created successfully.'']
   \<and> exists (path_join ''projects'' ''job.xlsx'') template_world
   \<and> exists ''Final PO Format.xlsx'' template_world"
proof -
  have a: "\<not> exists (path_join ''projects'' ''none.xlsx'') template_world"
    by (simp add: fs_ev template_world_def)
  have b: "exists (path_join ''projects'' ''job.xlsx'') no_template_world
      \<and> \<not> exists ''Final PO Format.xlsx'' no_template_world"
    by (simp add: fs_ev no_template_world_def)
  have c: "fst (create_po plain_lib ''job.xlsx'' ''PO7'' template_world) =
       Success [Txt ''PO '', Txt quote, Txt ''PO7'', Txt quote, Txt '' created successfully.'']"
    by (simp add: fs_ev po_ev template_world_def listing_workbook_def template_workbook_def)
  from a b c
    create_po_missing_files [of "''none.xlsx''" template_world plain_lib "''PO7''"]
    create_po_missing_files [of "''job.xlsx''" no_template_world plain_lib "''PO7''"]
    create_po_missing_files [of "''job.xlsx''" template_world plain_lib "''PO7''"]
  show ?thesis by blast
qed

text \<open>
  C2: when the project file is a workbook that already has a sheet of the requested
  name (the comparison is that of strings, case included), \<^verbatim>\<open>create_po\<close> returns a
  failure result and no file is changed: the project file still loads as the same
  workbook. When the template loads too, the failure is the message that the PO already
  exists and the whole state is unchanged.
\<close>

theorem create_po_existing_name:
  assumes "load_workbook (path_join ''projects'' project_name) w = Inr project_wb"
    and "po_name \<in> set (sheetnames project_wb)"
  shows "is_failure (fst (create_po lib project_name po_name w))
     \<and> files (snd (create_po lib project_name po_name w)) = files w
     \<and> load_workbook (path_join ''projects'' project_name)
          (snd (create_po lib project_name po_name w)) = Inr project_wb
     \<and> (\<forall>template_wb. load_workbook ''Final PO Format.xlsx'' w = Inr template_wb \<longrightarrow>
           create_po lib project_name po_name w =
             (Failure [Txt ''PO '', Txt quote, Txt po_name, Txt quote, Txt '' already exists.''], w))"
proof -
  have e: "exists (path_join ''projects'' project_name) w"
    using assms(1) by (rule load_exists)
  have f: "is_failure (fst (create_po lib project_name po_name w))"
    using assms e
    by (auto simp: create_po_def Let_def split: if_splits sum.splits option.splits)
  then have k: "files (snd (create_po lib project_name po_name w)) = files w"
    by (rule create_po_failure_keeps_files)
  have l: "load_workbook (path_join ''projects'' project_name)
          (snd (create_po lib project_name po_name w)) = Inr project_wb"
    using assms(1) k by (simp add: load_workbook_def)
  have t: "create_po lib project_name po_name w =
             (Failure [Txt ''PO '', Txt quote, Txt po_name, Txt quote, Txt '' already exists.''], w)"
    if "load_workbook ''Final PO Format.xlsx'' w = Inr template_wb" for template_wb
  proof -
    have "exists ''Final PO Format.xlsx'' w" using that by (rule load_exists)
    then show ?thesis using assms e that by (simp add: create_po_def Let_def)
  qed
  from f k l t show ?thesis by blast
qed

theorem create_po_existing_name_witness:
  "load_workbook (path_join ''projects'' ''job.xlsx'') template_world = Inr listing_workbook
   \<and> ''PO2'' \<in> set (sheetnames listing_workbook)
   \<and> create_po plain_lib ''job.xlsx'' ''PO2'' template_world =
       (Failure [Txt ''PO '', Txt quote, Txt ''PO2'', Txt quote, Txt '' already exists.''],
        template_world)
   \<and> is_failure (fst (create_po plain_lib ''job.xlsx'' ''PO2'' no_template_world))
   \<and> files (snd (create_po plain_lib ''job.xlsx'' ''PO2'' no_template_world))
       = files no_template_world"
proof -
  have a: "load_workbook (path_join ''projects'' ''job.xlsx'') template_world = Inr listing_workbook"
    by (simp add: fs_ev template_world_def)
  have a': "load_workbook (path_join ''projects'' ''job.xlsx'') no_template_world = Inr listing_workbook"
    by (simp add: fs_ev no_template_world_def)
  have b: "''PO2'' \<in> set (sheetnames listing_workbook)"
    by (simp add: fs_ev listing_workbook_def)
  have t: "load_workbook ''Final PO Format.xlsx'' template_world = Inr template_workbook"
    by (simp add: fs_ev template_world_def)
  from a a' b t
    create_po_existing_name [OF a b, of plain_lib]
    create_po_existing_name [OF a' b, of plain_lib]
  show ?thesis by blast
qed

section \<open>Marking a purchase order as deleted\<close>

lemma save_load:
  assumes "save wb p w = Inr w'"
  shows "load_workbook p w' = Inr wb"
    and "\<forall>q. q \<noteq> p \<longrightarrow> map_of (files w') q = map_of (files w) q"
    and "stdout w' = stdout w" and "locked w' = locked w"
  using assms
  by (auto simp: save_def load_workbook_def update_conv' split: if_splits option.splits node.splits)

lemma update_first_nth:
  assumes "\<exists>x\<in>set xs. P x"
  shows "\<exists>i<length xs. P (xs ! i) \<and> (\<forall>j<i. \<not> P (xs ! j)) \<and> update_first P f xs = xs[i := f (xs ! i)]"
  using assms
proof (induction xs)
  case Nil
  then show ?case by simp
next
  case (Cons x xs)
  show ?case
  proof (cases "P x")
    case True
    then have "P ((x # xs) ! 0) \<and> (\<forall>j<0. \<not> P ((x # xs) ! j))
        \<and> update_first P f (x # xs) = (x # xs)[0 := f ((x # xs) ! 0)]" by simp
    then show ?thesis by blast
  next
    case False
    with Cons.prems have "\<exists>x\<in>set xs. P x" by simp
    from Cons.IH [OF this] obtain i where i: "i < length xs" "P (xs ! i)"
      "\<forall>j<i. \<not> P (xs ! j)" "update_first P f xs = xs[i := f (xs ! i)]" by blast
    have "\<forall>j<Suc i. \<not> P ((x # xs) ! j)"
    proof (intro allI impI)
      fix j assume "j < Suc i"
      then show "\<not> P ((x # xs) ! j)" using False i(3) by (cases j) simp_all
    qed
    with i False have "Suc i < length (x # xs) \<and> P ((x # xs) ! Suc i) \<and> (\<forall>j<Suc i. \<not> P ((x # xs) ! j))
        \<and> update_first P f (x # xs) = (x # xs)[Suc i := f ((x # xs) ! Suc i)]" by simp
    then show ?thesis by blast
  qed
qed

text \<open>
  C5: after a successful \<^verbatim>\<open>delete_po\<close> the project file loads as the workbook it
  was before, but for the tab colour of the sheet found under the name (the first of
  that title), which is \<^verbatim>\<open>FFFF0000\<close>: the sheets are as many as before, under the same
  names, and the cells of every sheet are the same. No other file is changed.
\<close>

theorem delete_po_only_recolours:
  assumes "delete_po project_name po_name w = (Success m, w')"
  shows "\<exists>workbook workbook' i.
       load_workbook (path_join ''projects'' project_name) w = Inr workbook
     \<and> load_workbook (path_join ''projects'' project_name) w' = Inr workbook'
     \<and> i < length (sheets workbook)
     \<and> title (sheets workbook ! i) = po_name
     \<and> (\<forall>j<i. title (sheets workbook ! j) \<noteq> po_name)
     \<and> sheets workbook' =
         (sheets workbook)[i := (sheets workbook ! i)\<lparr>tab_color := Some ''FFFF0000''\<rparr>]
     \<and> active workbook' = active workbook
     \<and> length (sheets workbook') = length (sheets workbook)
     \<and> sheetnames workbook' = sheetnames workbook
     \<and> map cells (sheets workbook') = map cells (sheets workbook)
     \<and> (\<forall>q. q \<noteq> path_join ''projects'' project_name \<longrightarrow>
            map_of (files w') q = map_of (files w) q)"
proof -
  let ?p = "path_join ''projects'' project_name"
  let ?f = "\<lambda>sheet. sheet\<lparr>tab_color := Some ''FFFF0000''\<rparr>"
  from assms obtain workbook where
    l: "load_workbook ?p w = Inr workbook" and
    n: "po_name \<in> set (sheetnames workbook)" and
    s: "save (update_sheet po_name ?f workbook) ?p w = Inr w'"
    by (auto simp: delete_po_def Let_def split: if_splits sum.splits)
  from n have "\<exists>x\<in>set (sheets workbook). title x = po_name"
    by (auto simp: sheetnames_def)
  from update_first_nth [OF this, of ?f] obtain i where
    i: "i < length (sheets workbook)" "title (sheets workbook ! i) = po_name"
       "\<forall>j<i. title (sheets workbook ! j) \<noteq> po_name"
       "update_first (\<lambda>s. title s = po_name) ?f (sheets workbook)
          = (sheets workbook)[i := ?f (sheets workbook ! i)]"
    by blast
  define workbook' where "workbook' = update_sheet po_name ?f workbook"
  have sh: "sheets workbook' = (sheets workbook)[i := ?f (sheets workbook ! i)]"
    using i(4) by (simp add: workbook'_def update_sheet_def)
  have ac: "active workbook' = active workbook"
    by (simp add: workbook'_def update_sheet_def)
  have len: "length (sheets workbook') = length (sheets workbook)"
    by (simp add: sh)
  have names: "sheetnames workbook' = sheetnames workbook"
    unfolding sheetnames_def sh using i(1)
    by (simp add: map_update list_update_same_conv)
  have cs: "map cells (sheets workbook') = map cells (sheets workbook)"
    unfolding sh using i(1)
    by (simp add: map_update list_update_same_conv)
  have l': "load_workbook ?p w' = Inr workbook'"
    using s unfolding workbook'_def by (rule save_load(1))
  have fr: "\<forall>q. q \<noteq> ?p \<longrightarrow> map_of (files w') q = map_of (files w) q"
    using s by (rule save_load(2))
  from l l' i(1,2,3) sh ac len names cs fr show ?thesis by blast
qed

theorem delete_po_only_recolours_witness:
  "delete_po ''job.xlsx'' ''PO2'' deletion_world =
     (Success [Txt ''PO '', Txt quote, Txt ''PO2'', Txt quote, Txt '' marked as deleted.''],
      deletion_world\<lparr>files := [(''projects'', Dir),
                (''projects/job.xlsx'',
                 Workbook_file
                   \<lparr>sheets = [\<lparr>title = ''PO1'', tab_color = None,
                                cells = [((2, 2), \<lparr>val = VStr ''Acme'', cstyle = None\<rparr>)]\<rparr>,
                               \<lparr>title = ''PO2'', tab_color = Some ''FFFF0000'',
                                cells = [((2, 2), \<lparr>val = VStr ''Bolt'', cstyle = None\<rparr>)]\<rparr>],
                    active = 0\<rparr>)]\<rparr>)
   \<and> (\<exists>workbook workbook'.
         load_workbook (path_join ''projects'' ''job.xlsx'') deletion_world = Inr workbook
       \<and> load_workbook (path_join ''projects'' ''job.xlsx'')
            (snd (delete_po ''job.xlsx'' ''PO2'' deletion_world)) = Inr workbook'
       \<and> length (sheets workbook') = length (sheets workbook)
       \<and> map cells (sheets workbook') = map cells (sheets workbook))"
proof -
  have a: "delete_po ''job.xlsx'' ''PO2'' deletion_world =
     (Success [Txt ''PO '', Txt quote, Txt ''PO2'', Txt quote, Txt '' marked as deleted.''],
      deletion_world\<lparr>files := [(''projects'', Dir),
                (''projects/job.xlsx'',
                 Workbook_file
                   \<lparr>sheets = [\<lparr>title = ''PO1'', tab_color = None,
                                cells = [((2, 2), \<lparr>val = VStr ''Acme'', cstyle = None\<rparr>)]\<rparr>,
                               \<lparr>title = ''PO2'', tab_color = Some ''FFFF0000'',
                                cells = [((2, 2), \<lparr>val = VStr ''Bolt'', cstyle = None\<rparr>)]\<rparr>],
                    active = 0\<rparr>)]\<rparr>)"
    by (simp add: delete_po_def update_sheet_def fs_ev deletion_world_def)
  from delete_po_only_recolours [OF a] a show ?thesis
    by (simp only: snd_conv) blast
qed

section \<open>Saving the data of a purchase order\<close>

lemma cell_at_put_cell: "cell_at (put_cell c x s) c' = (if c' = c then x else cell_at s c')"
  by (simp add: cell_at_def put_cell_def update_conv')

lemma cell_at_set_value:
  "cell_at (set_value c v s) c' = (if c' = c then (cell_at s c)\<lparr>val := v\<rparr> else cell_at s c')"
  by (simp add: set_value_def cell_at_put_cell)

lemma set_value_frame: "title (set_value c v s) = title s" "tab_color (set_value c v s) = tab_color s"
  by (simp_all add: set_value_def put_cell_def)

lemma write_items_frame:
  "title (write_items its row s) = title s" "tab_color (write_items its row s) = tab_color s"
  by (induction its arbitrary: row s) (simp_all add: set_value_frame)

lemma cell_at_write_items:
  "cell_at (write_items its row s) (col, r) =
     (if col_A \<le> col \<and> col \<le> col_D \<and> row \<le> r \<and> r < row + length its
      then (cell_at s (col, r))\<lparr>val := item_field col (its ! (r - row))\<rparr>
      else cell_at s (col, r))"
proof (induction its arbitrary: row s)
  case Nil
  then show ?case by auto
next
  case (Cons item rest)
  define s' where "s' = set_value (col_D, row) (i_description item)
         (set_value (col_C, row) (i_unit_price item)
           (set_value (col_B, row) (i_quantity item)
             (set_value (col_A, row) (i_name item) s)))"
  have w: "write_items (item # rest) row s = write_items rest (row + 1) s'"
    by (simp add: s'_def)
  have here: "cell_at s' (col, r) =
     (if col_A \<le> col \<and> col \<le> col_D \<and> r = row
      then (cell_at s (col, r))\<lparr>val := item_field col item\<rparr>
      else cell_at s (col, r))"
    unfolding s'_def
    by (auto simp: cell_at_set_value col_A_def col_B_def col_C_def col_D_def)
  show ?case
  proof (cases "col_A \<le> col \<and> col \<le> col_D \<and> row + 1 \<le> r \<and> r < row + 1 + length rest")
    case True
    then have "(item # rest) ! (r - row) = rest ! (r - (row + 1))"
      by (simp add: nth_Cons')
    with True show ?thesis
      unfolding w Cons.IH here by simp
  next
    case False
    then show ?thesis
      unfolding w Cons.IH here by auto
  qed
qed

lemma write_po_data_frame:
  "title (write_po_data d s) = title s" "tab_color (write_po_data d s) = tab_color s"
  by (simp_all add: write_po_data_def Let_def set_value_frame write_items_frame)

lemma cell_at_write_po_data:
  "cell_at (write_po_data d s) c =
     (case written_value d c of
        Some v \<Rightarrow> (cell_at s c)\<lparr>val := v\<rparr>
      | None \<Rightarrow> cell_at s c)"
proof -
  obtain col r where c: "c = (col, r)" by (cases c)
  show ?thesis
    unfolding c write_po_data_def Let_def written_value_def
    by (simp add: cell_at_set_value cell_at_write_items col_A_def col_B_def col_C_def col_D_def)
qed


lemma save_po_data_succeeds:
  assumes "load_workbook (path_join ''projects'' project_name) w = Inr workbook"
    and "po_name \<in> set (sheetnames workbook)"
    and "path_join ''projects'' project_name \<notin> set (locked w)"
  shows "\<exists>w'. save_po_data project_name po_name po_data w
                = (Success [Txt ''PO data saved successfully.''], w')
             \<and> locked w' = locked w"
proof -
  have e: "exists (path_join ''projects'' project_name) w"
    using assms(1) by (rule load_exists)
  have m: "map_of (files w) (path_join ''projects'' project_name) = Some (Workbook_file workbook)"
    using assms(1)
    by (auto simp: load_workbook_def split: option.splits node.splits)
  show ?thesis
    using assms e m by (simp add: save_po_data_def Let_def save_def)
qed

text \<open>
  C6: after a successful \<^verbatim>\<open>save_po_data\<close> with n items the project file loads as
  the workbook it was before, but for the sheet found under the name, and, of that
  sheet, for the values of exactly the cells B2, B4, B5, B6, B3, B7, B8 and columns A to
  D of rows 10 to 10 + n - 1, which hold the data; styles, title and tab colour stay. In
  particular every row from 10 + n on is as it was. The witness saves three items and
  then one: rows 11 and 12 still hold the second and third item of the first save.
\<close>

theorem save_po_data_writes:
  assumes "save_po_data project_name po_name po_data w = (Success m, w')"
  shows "\<exists>workbook workbook' i.
       load_workbook (path_join ''projects'' project_name) w = Inr workbook
     \<and> load_workbook (path_join ''projects'' project_name) w' = Inr workbook'
     \<and> i < length (sheets workbook)
     \<and> title (sheets workbook ! i) = po_name
     \<and> (\<forall>j<i. title (sheets workbook ! j) \<noteq> po_name)
     \<and> length (sheets workbook') = length (sheets workbook)
     \<and> active workbook' = active workbook
     \<and> (\<forall>j<length (sheets workbook). j \<noteq> i \<longrightarrow> sheets workbook' ! j = sheets workbook ! j)
     \<and> title (sheets workbook' ! i) = po_name
     \<and> tab_color (sheets workbook' ! i) = tab_color (sheets workbook ! i)
     \<and> (\<forall>c. cell_at (sheets workbook' ! i) c =
            (case written_value po_data c of
               Some v \<Rightarrow> (cell_at (sheets workbook ! i) c)\<lparr>val := v\<rparr>
             | None \<Rightarrow> cell_at (sheets workbook ! i) c))
     \<and> (\<forall>col row. 10 + length (items po_data) \<le> row \<longrightarrow>
            cell_at (sheets workbook' ! i) (col, row) = cell_at (sheets workbook ! i) (col, row))
     \<and> (\<forall>q. q \<noteq> path_join ''projects'' project_name \<longrightarrow>
            map_of (files w') q = map_of (files w) q)"
proof -
  let ?p = "path_join ''projects'' project_name"
  let ?f = "write_po_data po_data"
  from assms obtain workbook where
    l: "load_workbook ?p w = Inr workbook" and
    n: "po_name \<in> set (sheetnames workbook)" and
    s: "save (update_sheet po_name ?f workbook) ?p w = Inr w'"
    by (auto simp: save_po_data_def Let_def split: if_splits sum.splits)
  from n have "\<exists>x\<in>set (sheets workbook). title x = po_name"
    by (auto simp: sheetnames_def)
  from update_first_nth [OF this, of ?f] obtain i where
    i: "i < length (sheets workbook)" "title (sheets workbook ! i) = po_name"
       "\<forall>j<i. title (sheets workbook ! j) \<noteq> po_name"
       "update_first (\<lambda>s. title s = po_name) ?f (sheets workbook)
          = (sheets workbook)[i := ?f (sheets workbook ! i)]"
    by blast
  define workbook' where "workbook' = update_sheet po_name ?f workbook"
  have sh: "sheets workbook' = (sheets workbook)[i := ?f (sheets workbook ! i)]"
    using i(4) by (simp add: workbook'_def update_sheet_def)
  have ac: "active workbook' = active workbook"
    by (simp add: workbook'_def update_sheet_def)
  have len: "length (sheets workbook') = length (sheets workbook)"
    by (simp add: sh)
  have others: "\<forall>j<length (sheets workbook). j \<noteq> i \<longrightarrow> sheets workbook' ! j = sheets workbook ! j"
    by (simp add: sh)
  have at_i: "sheets workbook' ! i = ?f (sheets workbook ! i)"
    using i(1) by (simp add: sh)
  have ti: "title (sheets workbook' ! i) = po_name"
    using i(2) by (simp add: at_i write_po_data_frame)
  have tc: "tab_color (sheets workbook' ! i) = tab_color (sheets workbook ! i)"
    by (simp add: at_i write_po_data_frame)
  have cs: "\<forall>c. cell_at (sheets workbook' ! i) c =
            (case written_value po_data c of
               Some v \<Rightarrow> (cell_at (sheets workbook ! i) c)\<lparr>val := v\<rparr>
             | None \<Rightarrow> cell_at (sheets workbook ! i) c)"
    by (simp add: at_i cell_at_write_po_data)
  have stale: "\<forall>col row. 10 + length (items po_data) \<le> row \<longrightarrow>
            cell_at (sheets workbook' ! i) (col, row) = cell_at (sheets workbook ! i) (col, row)"
    by (simp add: at_i cell_at_write_po_data written_value_def)
  have l': "load_workbook ?p w' = Inr workbook'"
    using s unfolding workbook'_def by (rule save_load(1))
  have fr: "\<forall>q. q \<noteq> ?p \<longrightarrow> map_of (files w') q = map_of (files w) q"
    using s by (rule save_load(2))
  from l l' i(1,2,3) len ac others ti tc cs stale fr show ?thesis by blast
qed

theorem save_po_data_writes_witness:
  "\<exists>w1 w2 workbook2.
      save_po_data ''job.xlsx'' ''PO1''
        (order_of [item_of ''nut'' 1, item_of ''bolt'' 2, item_of ''gear'' 3]) deletion_world
        = (Success [Txt ''PO data saved successfully.''], w1)
    \<and> save_po_data ''job.xlsx'' ''PO1'' (order_of [item_of ''cog'' 9]) w1
        = (Success [Txt ''PO data saved successfully.''], w2)
    \<and> load_workbook (path_join ''projects'' ''job.xlsx'') w2 = Inr workbook2
    \<and> map (\<lambda>r. val (cell_at (sheets workbook2 ! 0) (col_A, r))) [10, 11, 12, 13]
        = [VStr ''cog'', VStr ''bolt'', VStr ''gear'', VNone]
    \<and> map (\<lambda>r. val (cell_at (sheets workbook2 ! 0) (col_B, r))) [2, 3, 4, 5, 6, 7, 8, 9]
        = [VStr ''Acme'', VStr ''2024-05-01'', VStr ''1 Main St'', VStr ''555'',
           VStr ''a@acme'', VStr ''dock 2'', VStr ''net 30'', VNone]"
proof -
  let ?p = "path_join ''projects'' ''job.xlsx''"
  let ?d3 = "order_of [item_of ''nut'' 1, item_of ''bolt'' 2, item_of ''gear'' 3]"
  let ?d1 = "order_of [item_of ''cog'' 9]"
  let ?ok = "Success [Txt ''PO data saved successfully.'']"
  define wb0 where "wb0 =
     \<lparr>sheets = [\<lparr>title = ''PO1'', tab_color = None,
                  cells = [((2, 2), \<lparr>val = VStr ''Acme'', cstyle = None\<rparr>)]\<rparr>,
                 \<lparr>title = ''PO2'', tab_color = None,
                  cells = [((2, 2), \<lparr>val = VStr ''Bolt'', cstyle = None\<rparr>)]\<rparr>],
      active = 0::nat\<rparr>"
  have l0: "load_workbook ?p deletion_world = Inr wb0"
    by (simp add: fs_ev deletion_world_def wb0_def)
  have n0: "''PO1'' \<in> set (sheetnames wb0)" by (simp add: sheetnames_def wb0_def)
  have k0: "?p \<notin> set (locked deletion_world)" by (simp add: deletion_world_def)
  from save_po_data_succeeds [OF l0 n0 k0, of ?d3] obtain w1 where
    s1: "save_po_data ''job.xlsx'' ''PO1'' ?d3 deletion_world = (?ok, w1)"
    and k1: "locked w1 = locked deletion_world" by blast
  from save_po_data_writes [OF s1] l0 obtain wb1 i where
    l1: "load_workbook ?p w1 = Inr wb1"
    and i: "i < length (sheets wb0)" "title (sheets wb0 ! i) = ''PO1''"
    and len1: "length (sheets wb1) = length (sheets wb0)"
    and t1: "title (sheets wb1 ! i) = ''PO1''"
    and c1: "\<forall>c. cell_at (sheets wb1 ! i) c =
            (case written_value ?d3 c of
               Some v \<Rightarrow> (cell_at (sheets wb0 ! i) c)\<lparr>val := v\<rparr>
             | None \<Rightarrow> cell_at (sheets wb0 ! i) c)"
    by auto
  have i0: "i = 0"
  proof (rule ccontr)
    assume "i \<noteq> 0"
    with i(1) have "i = 1" by (simp add: wb0_def)
    with i(2) show False by (simp add: wb0_def)
  qed
  have n1: "''PO1'' \<in> set (sheetnames wb1)"
    unfolding sheetnames_def using t1 i(1) len1 by (metis nth_mem image_eqI set_map)
  have k1': "?p \<notin> set (locked w1)" using k0 k1 by simp
  from save_po_data_succeeds [OF l1 n1 k1', of ?d1] obtain w2 where
    s2: "save_po_data ''job.xlsx'' ''PO1'' ?d1 w1 = (?ok, w2)" by blast
  from save_po_data_writes [OF s2] l1 obtain wb2 j where
    l2: "load_workbook ?p w2 = Inr wb2"
    and j: "j < length (sheets wb1)" "\<forall>k<j. title (sheets wb1 ! k) \<noteq> ''PO1''"
    and c2: "\<forall>c. cell_at (sheets wb2 ! j) c =
            (case written_value ?d1 c of
               Some v \<Rightarrow> (cell_at (sheets wb1 ! j) c)\<lparr>val := v\<rparr>
             | None \<Rightarrow> cell_at (sheets wb1 ! j) c)"
    by auto
  have j0: "j = 0"
  proof (rule ccontr)
    assume "j \<noteq> 0"
    then have "0 < j" by simp
    with j(2) have "title (sheets wb1 ! 0) \<noteq> ''PO1''" by blast
    with t1 i0 show False by simp
  qed
  have v: "val (cell_at (sheets wb2 ! 0) (col, r)) =
            (case written_value ?d1 (col, r) of
               Some v \<Rightarrow> v
             | None \<Rightarrow>
                (case written_value ?d3 (col, r) of
                   Some v \<Rightarrow> v
                 | None \<Rightarrow> val (cell_at (sheets wb0 ! 0) (col, r))))" for col r
    using c1 [rule_format, of "(col, r)"] c2 [rule_format, of "(col, r)"] i0 j0
    by (simp split: option.splits)
  have a: "map (\<lambda>r. val (cell_at (sheets wb2 ! 0) (col_A, r))) [10, 11, 12, 13]
        = [VStr ''cog'', VStr ''bolt'', VStr ''gear'', VNone]"
    by (simp only: list.map v)
      (simp add: written_value_def order_of_def item_of_def col_A_def col_B_def col_C_def
        col_D_def wb0_def cell_at_def blank_def)
  have b: "map (\<lambda>r. val (cell_at (sheets wb2 ! 0) (col_B, r))) [2, 3, 4, 5, 6, 7, 8, 9]
        = [VStr ''Acme'', VStr ''2024-05-01'', VStr ''1 Main St'', VStr ''555'',
           VStr ''a@acme'', VStr ''dock 2'', VStr ''net 30'', VNone]"
    by (simp only: list.map v)
      (simp add: written_value_def order_of_def item_of_def col_A_def col_B_def col_C_def
        col_D_def wb0_def cell_at_def blank_def)
  from s1 s2 l2 a b show ?thesis
    by (intro exI [of _ w1] exI [of _ w2] exI [of _ wb2] conjI)
qed

section \<open>Creating a project\<close>

lemma set_strip: "set (strip xs) \<subseteq> set xs"
proof
  fix c assume "c \<in> set (strip xs)"
  then have "c \<in> set (dropWhile isspace (rev (dropWhile isspace xs)))"
    by (simp add: strip_def)
  then have "c \<in> set (rev (dropWhile isspace xs))" by (rule set_dropWhileD)
  then have "c \<in> set (dropWhile isspace xs)" by simp
  then show "c \<in> set xs" by (rule set_dropWhileD)
qed

lemma safe_project_name_chars: "c \<in> set (safe_project_name n) \<Longrightarrow> safe_char c"
proof (cases "strip (filter safe_char n) = []")
  case True
  assume "c \<in> set (safe_project_name n)"
  with True have "c \<in> set ''untitled_project''" by (simp add: safe_project_name_def)
  moreover have "list_all safe_char ''untitled_project''"
    by (simp add: safe_char_def isalnum_def code_point_def)
  ultimately show ?thesis by (simp only: list_all_iff)
next
  case False
  assume "c \<in> set (safe_project_name n)"
  with False have "c \<in> set (strip (filter safe_char n))" by (simp add: safe_project_name_def)
  with set_strip have "c \<in> set (filter safe_char n)" by blast
  then show ?thesis by simp
qed

lemma slash_unsafe: "\<not> safe_char (CHR ''/'')"
  by (simp add: safe_char_def isalnum_def code_point_def)

lemma project_path:
  "path_join ''projects'' (safe_project_name n @ ''.xlsx'') = ''projects/'' @ safe_project_name n @ ''.xlsx''"
proof -
  have "\<not> startswith (safe_project_name n @ ''.xlsx'') ''/''"
  proof
    assume "startswith (safe_project_name n @ ''.xlsx'') ''/''"
    then have "take 1 (safe_project_name n @ ''.xlsx'') = ''/''" by (simp add: startswith_def)
    then have "CHR ''/'' \<in> set (safe_project_name n)"
      by (cases "safe_project_name n") auto
    then show False using safe_project_name_chars slash_unsafe by blast
  qed
  then show ?thesis by (simp add: path_join_def endswith_def)
qed

lemma new_workbook: "Workbook\<lparr>sheets := (sheets Workbook)[active Workbook :=
     (sheets Workbook ! active Workbook)\<lparr>title := ''Sheet1''\<rparr>]\<rparr> = fresh_workbook"
  by (simp add: Workbook_def fresh_workbook_def)

lemma makedirs_Inr:
  assumes "makedirs d w = Inr w1"
  shows "map_of (files w1) d = Some Dir" "locked w1 = locked w" "stdout w1 = stdout w"
    "\<forall>q. q \<noteq> d \<longrightarrow> map_of (files w1) q = map_of (files w) q"
  using assms
  by (auto simp: makedirs_def map_add_def split: option.splits node.splits if_splits)

lemma makedirs_existing: "map_of (files w) d = Some Dir \<Longrightarrow> makedirs d w = Inr w"
  by (simp add: makedirs_def)

lemma makedirs_print: "makedirs d (print m w) = map_sum id (print m) (makedirs d w)"
  by (simp add: makedirs_def print_def split: option.splits node.splits)

lemma save_print: "save wb p (print m w) = map_sum id (print m) (save wb p w)"
  by (simp add: save_def print_def split: option.splits node.splits)

lemma update_twice: "AList.update k v (AList.update k v al) = AList.update k v al"
  by (induction al) auto

lemma save_Inl_stable:
  assumes "save wb p w = Inl e" and "files w2 = files w" and "locked w2 = locked w"
  shows "save wb p w2 = Inl e"
  using assms by (auto simp: save_def split: if_splits option.splits node.splits)

lemma save_again:
  assumes "save wb p w = Inr w'"
  shows "save wb p w' = Inr w'"
proof -
  have f: "files w' = AList.update p (Workbook_file wb) (files w)" and l: "locked w' = locked w"
    and n: "p \<notin> set (locked w)"
    using assms by (auto simp: save_def split: if_splits option.splits node.splits)
  have m: "map_of (files w') p = Some (Workbook_file wb)" by (simp add: f update_conv')
  have "w'\<lparr>files := AList.update p (Workbook_file wb) (files w')\<rparr> = w'"
    by (simp add: f update_twice)
  then show ?thesis using m n l by (simp add: save_def)
qed

lemma create_excel_file_cases:
  "create_excel_file n w =
     (case makedirs ''projects'' w of
        Inl e \<Rightarrow> (Failure [Txt ''Failed to create project: '', Exc e],
                  print [Txt ''Error creating Excel file: '', Exc e] w)
      | Inr w1 \<Rightarrow>
          (case save fresh_workbook (''projects/'' @ safe_project_name n @ ''.xlsx'') w1 of
             Inl e \<Rightarrow> (Failure [Txt ''Failed to create project: '', Exc e],
                       print [Txt ''Error creating Excel file: '', Exc e] w1)
           | Inr w2 \<Rightarrow>
               (Success [Txt ''Project '', Txt quote, Txt (safe_project_name n @ ''.xlsx''),
                         Txt quote, Txt '' created successfully in '', Txt quote,
                         Txt ''projects'', Txt quote, Txt '' folder!''],
                print [Txt ''Successfully created '',
                       Txt (''projects/'' @ safe_project_name n @ ''.xlsx'')] w2)))"
  by (simp add: create_excel_file_def Let_def new_workbook project_path
      split: sum.splits)


lemmas name_ev = safe_project_name_def strip_def safe_char_def isalnum_def isspace_def
  code_point_def

text \<open>
  C7: two names that sanitize to the same string give the same file path,
  \<^verbatim>\<open>projects/<name>.xlsx\<close>. A second call after the first returns what the first
  returned and leaves every file as the first left it; and after a successful call the
  file at the path loads as a workbook of the single sheet \<^verbatim>\<open>Sheet1\<close>, whatever it
  held before. The witness creates \<^verbatim>\<open>My Job!\<close> over an existing workbook of three
  sheets and then \<^verbatim>\<open> My Job\<close>.
\<close>

theorem create_excel_file_idempotent:
  assumes "safe_project_name name1 = safe_project_name name2"
  shows "path_join ''projects'' (safe_project_name name1 @ ''.xlsx'')
           = path_join ''projects'' (safe_project_name name2 @ ''.xlsx'')
     \<and> path_join ''projects'' (safe_project_name name2 @ ''.xlsx'')
           = ''projects/'' @ safe_project_name name2 @ ''.xlsx''
     \<and> fst (create_excel_file name2 (snd (create_excel_file name1 w)))
           = fst (create_excel_file name1 w)
     \<and> files (snd (create_excel_file name2 (snd (create_excel_file name1 w))))
           = files (snd (create_excel_file name1 w))
     \<and> (\<forall>m. fst (create_excel_file name1 w) = Success m \<longrightarrow>
           load_workbook (''projects/'' @ safe_project_name name2 @ ''.xlsx'')
             (snd (create_excel_file name2 (snd (create_excel_file name1 w))))
           = Inr \<lparr>sheets = [\<lparr>title = ''Sheet1'', tab_color = None, cells = []\<rparr>], active = 0\<rparr>)
     \<and> (\<forall>m. fst (create_excel_file name2 w) = Success m \<longrightarrow>
           load_workbook (''projects/'' @ safe_project_name name2 @ ''.xlsx'')
             (snd (create_excel_file name2 w))
           = Inr \<lparr>sheets = [\<lparr>title = ''Sheet1'', tab_color = None, cells = []\<rparr>], active = 0\<rparr>)"
proof -
  define p where "p = ''projects/'' @ safe_project_name name2 @ ''.xlsx''"
  define ok where "ok = [Txt ''Project '', Txt quote, Txt (safe_project_name name2 @ ''.xlsx''),
                         Txt quote, Txt '' created successfully in '', Txt quote,
                         Txt ''projects'', Txt quote, Txt '' folder!'']"
  define run where "run = (\<lambda>w0.
     case makedirs ''projects'' w0 of
        Inl e \<Rightarrow> (Failure [Txt ''Failed to create project: '', Exc e],
                  print [Txt ''Error creating Excel file: '', Exc e] w0)
      | Inr w1 \<Rightarrow>
          (case save fresh_workbook p w1 of
             Inl e \<Rightarrow> (Failure [Txt ''Failed to create project: '', Exc e],
                       print [Txt ''Error creating Excel file: '', Exc e] w1)
           | Inr w2 \<Rightarrow> (Success ok, print [Txt ''Successfully created '', Txt p] w2)))"
  have c2: "create_excel_file name2 w0 = run w0" for w0
    unfolding run_def p_def ok_def by (rule create_excel_file_cases)
  have c1: "create_excel_file name1 w0 = run w0" for w0
    unfolding run_def p_def ok_def assms [symmetric] by (rule create_excel_file_cases)
  have ne: "''projects'' \<noteq> p" by (simp add: p_def)
  have once: "load_workbook p (snd (run w0)) = Inr fresh_workbook"
    if "fst (run w0) = Success m" for w0 m
  proof -
    from that obtain w1 w2 where
      "save fresh_workbook p w1 = Inr w2"
      "snd (run w0) = print [Txt ''Successfully created '', Txt p] w2"
      by (auto simp: run_def split: sum.splits)
    then show ?thesis
      using save_load(1) [of fresh_workbook p w1 w2]
      by (simp add: load_workbook_def print_def)
  qed
  have twice: "fst (run (snd (run w))) = fst (run w) \<and> files (snd (run (snd (run w)))) = files (snd (run w))"
  proof (cases "makedirs ''projects'' w")
    case (Inl e)
    then show ?thesis
      by (simp add: run_def makedirs_print files_print)
  next
    case (Inr w1)
    have d: "makedirs ''projects'' w1 = Inr w1"
      using makedirs_Inr(1) [OF Inr] by (rule makedirs_existing)
    show ?thesis
    proof (cases "save fresh_workbook p w1")
      case (Inl e)
      then show ?thesis
        using Inr d
        by (simp add: run_def makedirs_print save_print files_print)
    next
      case s: (Inr w2)
      have "map_of (files w2) ''projects'' = map_of (files w1) ''projects''"
        using save_load(2) [OF s] ne by blast
      then have "map_of (files w2) ''projects'' = Some Dir"
        using makedirs_Inr(1) [OF Inr] by simp
      then have d2: "makedirs ''projects'' w2 = Inr w2" by (rule makedirs_existing)
      have s2: "save fresh_workbook p w2 = Inr w2" using s by (rule save_again)
      show ?thesis
        using Inr s d2 s2
        by (simp add: run_def makedirs_print save_print files_print)
    qed
  qed
  have a: "path_join ''projects'' (safe_project_name name1 @ ''.xlsx'')
           = path_join ''projects'' (safe_project_name name2 @ ''.xlsx'')"
    using assms by simp
  have b: "path_join ''projects'' (safe_project_name name2 @ ''.xlsx'') = p"
    unfolding p_def by (rule project_path)
  have c: "\<forall>m. fst (run w) = Success m \<longrightarrow>
           load_workbook p (snd (run (snd (run w)))) = Inr fresh_workbook"
  proof (intro allI impI)
    fix m assume "fst (run w) = Success m"
    with twice have "fst (run (snd (run w))) = Success m" by simp
    then show "load_workbook p (snd (run (snd (run w)))) = Inr fresh_workbook"
      by (rule once)
  qed
  have d: "\<forall>m. fst (run w) = Success m \<longrightarrow> load_workbook p (snd (run w)) = Inr fresh_workbook"
    using once by blast
  from a b twice c d show ?thesis
    unfolding c1 c2 fresh_workbook_def p_def [symmetric] by blast
qed

theorem create_excel_file_idempotent_witness:
  "safe_project_name ''My Job!'' = ''My Job''
   \<and> safe_project_name '' My Job'' = ''My Job''
   \<and> path_join ''projects'' (safe_project_name '' My Job'' @ ''.xlsx'') = ''projects/My Job.xlsx''
   \<and> load_workbook ''projects/My Job.xlsx'' occupied_world = Inr listing_workbook
   \<and> fst (create_excel_file ''My Job!'' occupied_world) =
       Success [Txt ''Project '', Txt quote, Txt ''My Job.xlsx'', Txt quote,
                Txt '' created successfully in '', Txt quote, Txt ''projects'', Txt quote,
                Txt '' folder!'']
   \<and> fst (create_excel_file '' My Job'' (snd (create_excel_file ''My Job!'' occupied_world))) =
       Success [Txt ''Project '', Txt quote, Txt ''My Job.xlsx'', Txt quote,
                Txt '' created successfully in '', Txt quote, Txt ''projects'', Txt quote,
                Txt '' folder!'']
   \<and> load_workbook ''projects/My Job.xlsx''
         (snd (create_excel_file '' My Job'' (snd (create_excel_file ''My Job!'' occupied_world))))
       = Inr \<lparr>sheets = [\<lparr>title = ''Sheet1'', tab_color = None, cells = []\<rparr>], active = 0\<rparr>
   \<and> fst (create_excel_file ''???'' empty_world) =
       Success [Txt ''Project '', Txt quote, Txt ''untitled_project.xlsx'', Txt quote,
                Txt '' created successfully in '', Txt quote, Txt ''projects'', Txt quote,
                Txt '' folder!'']"
proof -
  have n1: "safe_project_name ''My Job!'' = ''My Job''" by (simp add: name_ev)
  have n2: "safe_project_name '' My Job'' = ''My Job''" by (simp add: name_ev)
  have n3: "safe_project_name ''???'' = ''untitled_project''" by (simp add: name_ev)
  have h: "safe_project_name ''My Job!'' = safe_project_name '' My Job''"
    by (simp only: n1 n2)
  have l: "load_workbook ''projects/My Job.xlsx'' occupied_world = Inr listing_workbook"
    by (simp add: load_workbook_def occupied_world_def)
  have a: "fst (create_excel_file ''My Job!'' occupied_world) =
       Success [Txt ''Project '', Txt quote, Txt ''My Job.xlsx'', Txt quote,
                Txt '' created successfully in '', Txt quote, Txt ''projects'', Txt quote,
                Txt '' folder!'']"
    by (simp add: create_excel_file_cases n1 makedirs_def save_def occupied_world_def)
  have e: "fst (create_excel_file ''???'' empty_world) =
       Success [Txt ''Project '', Txt quote, Txt ''untitled_project.xlsx'', Txt quote,
                Txt '' created successfully in '', Txt quote, Txt ''projects'', Txt quote,
                Txt '' folder!'']"
    by (simp add: create_excel_file_cases n3 makedirs_def save_def empty_world_def)
  from create_excel_file_idempotent [OF h, of occupied_world] n1 n2 l a e
  show ?thesis by simp
qed

end
